theory Spec2Isabelle
  imports Main
begin

section \<open>Views and materialized views: the module \<open>sqlalchemy_utils/view.py\<close>\<close>

text \<open>
  The module layers database views on a schema toolkit. The toolkit itself (tables,
  metadata containers, sessions, dialects) is a collaborator: what the module reads
  from it is a parameter of the model (identifier quoting, query rendering, the
  column introspection \<open>get_columns\<close>), and what the module does to it is an
  explicit state (the containers and their listeners, the class-level dispatch tag,
  the statements a connection has executed).
\<close>

subsection \<open>Exceptions\<close>

datatype error =
    ValueError      \<comment> \<open>raised by \<open>View.__init__\<close>, and by \<open>str.format\<close> on a stray brace\<close>
  | AttributeError  \<comment> \<open>reading an attribute the object does not have\<close>
  | IndexError      \<comment> \<open>\<open>str.format\<close> with fewer arguments than fields\<close>
  | KeyError        \<comment> \<open>\<open>str.format\<close> with an unknown named field\<close>
  | TypeError       \<comment> \<open>the \<open>%\<close> operator with the wrong number of arguments\<close>
  | ConstraintColumnNotFoundError
                    \<comment> \<open>a constraint names a column its table does not have\<close>
  | DatabaseError   \<comment> \<open>the database refused a statement\<close>

definition prepend :: "string \<Rightarrow> error + string \<Rightarrow> error + string" where
  "prepend s r = (case r of Inl e \<Rightarrow> Inl e | Inr t \<Rightarrow> Inr (s @ t))"

subsection \<open>The string operations the compilers use\<close>

text \<open>
  \<open>sep.join(xs)\<close>, \<open>template.format(a, b, ...)\<close> with the positional field \<open>{}\<close>,
  \<open>template.format(k=a, ...)\<close> with named fields \<open>{k}\<close>, and \<open>template % args\<close> with
  the conversion \<open>%s\<close>. The templates of the module hold no other field syntax and
  no brace escapes; arguments are the texts \<open>str\<close> gives.
\<close>

fun str_join :: "string \<Rightarrow> string list \<Rightarrow> string" where
  "str_join sep [] = []"
| "str_join sep [x] = x"
| "str_join sep (x # y # ys) = x @ sep @ str_join sep (y # ys)"

fun py_format :: "string \<Rightarrow> string list \<Rightarrow> error + string" where
  "py_format [] args = Inr []"
| "py_format [c] args = (if c = CHR ''{'' \<or> c = CHR ''}'' then Inl ValueError else Inr [c])"
| "py_format (c # d # t) args =
     (if c = CHR ''{'' then
        (if d = CHR ''}'' then
           (case args of
              [] \<Rightarrow> Inl IndexError
            | a # rest \<Rightarrow> prepend a (py_format t rest))
         else Inl ValueError)
      else if c = CHR ''}'' then Inl ValueError
      else prepend [c] (py_format (d # t) args))"

definition field_name :: "string \<Rightarrow> string" where
  "field_name t = takeWhile (\<lambda>x. x \<noteq> CHR ''}'') t"

definition after_field :: "string \<Rightarrow> string" where
  "after_field t = drop 1 (dropWhile (\<lambda>x. x \<noteq> CHR ''}'') t)"

function py_format_kw :: "string \<Rightarrow> (string \<times> string) list \<Rightarrow> error + string" where
  "py_format_kw [] kw = Inr []"
| "py_format_kw (c # t) kw =
     (if c = CHR ''{'' then
        (if CHR ''}'' \<in> set t then
           (case map_of kw (field_name t) of
              None \<Rightarrow> Inl KeyError
            | Some v \<Rightarrow> prepend v (py_format_kw (after_field t) kw))
         else Inl ValueError)
      else if c = CHR ''}'' then Inl ValueError
      else prepend [c] (py_format_kw t kw))"
  by pat_completeness auto
termination
proof (relation "measure (\<lambda>(t, kw). length t)")
  show "wf (measure (\<lambda>(t, kw). length t))" by simp
next
  fix c :: char and t :: string and kw :: "(string \<times> string) list" and x2 :: string
  have "length (dropWhile (\<lambda>x. x \<noteq> CHR ''}'') t) \<le> length t"
    by (rule length_dropWhile_le)
  then show "((after_field t, kw), c # t, kw) \<in> measure (\<lambda>(t, kw). length t)"
    by (simp add: after_field_def)
next
  fix c :: char and t :: string and kw :: "(string \<times> string) list"
  show "((t, kw), c # t, kw) \<in> measure (\<lambda>(t, kw). length t)" by simp
qed

fun py_percent :: "string \<Rightarrow> string list \<Rightarrow> error + string" where
  "py_percent [] args = (if args = [] then Inr [] else Inl TypeError)"
| "py_percent [c] args =
     (if c = CHR ''%'' then Inl ValueError
      else if args = [] then Inr [c] else Inl TypeError)"
| "py_percent (c # d # t) args =
     (if c = CHR ''%'' then
        (if d = CHR ''s'' then
           (case args of
              [] \<Rightarrow> Inl TypeError
            | a # rest \<Rightarrow> prepend a (py_percent t rest))
         else Inl ValueError)
      else prepend [c] (py_percent (d # t) args))"

text \<open>\<open>d.get(k, default)\<close> on a dictionary kept as its list of items.\<close>

definition dict_get :: "('k \<times> 'v) list \<Rightarrow> 'k \<Rightarrow> 'v \<Rightarrow> 'v" where
  "dict_get d k dflt = (case map_of d k of None \<Rightarrow> dflt | Some v \<Rightarrow> v)"

text \<open>Running a list of fallible results: the first exception ends the comprehension.\<close>

fun collect :: "(error + 'a) list \<Rightarrow> error + 'a list" where
  "collect [] = Inr []"
| "collect (Inl e # rs) = Inl e"
| "collect (Inr x # rs) = (case collect rs of Inl e \<Rightarrow> Inl e | Inr xs \<Rightarrow> Inr (x # xs))"

subsection \<open>The data model\<close>

text \<open>
  A column as the toolkit's \<open>Column\<close> carries it: name, type, exposed key and the
  primary-key flag. The columns \<open>get_columns\<close> reads off a selectable are of the same
  shape. A type is kept as its name.
\<close>

type_synonym sqltype = string

record column =
  col_name :: string
  col_type :: sqltype
  col_key :: string
  primary_key :: bool

datatype index = Index (idx_name: string) (idx_columns: "string list")

datatype constraint = PrimaryKeyConstraint (pk_columns: "string list")

text \<open>The positional arguments \<open>*args\<close> of a table: columns and indexes.\<close>

datatype schema_item = Col column | Idx index

text \<open>
  The dialect option bag \<open>dialect_options\<close>: dialect name, then option key, then the
  option's value. The one option the module reads is a mapping of storage parameters,
  kept as its items in the dictionary's order, keys and values as \<open>%s\<close> prints them.
\<close>

type_synonym storage_parameters = "(string \<times> string) list"
type_synonym dialect_options = "(string \<times> (string \<times> storage_parameters) list) list"

text \<open>
  \<open>class View(Table)\<close>. The first six fields are the base class's (\<open>metadata\<close> is the
  address of the owning container in the store below); \<open>selectable\<close>, \<open>materialized\<close>
  and \<open>replace\<close> are the attributes \<open>View.__init__\<close> sets. \<open>cascade\<close> is the attribute
  the DROP compiler reads: neither the class nor its constructor defines it, so it is
  \<open>None\<close> (absent) unless a caller assigns it on the object.
\<close>

record 'q View =
  name :: string
  metadata :: nat
  columns :: "column list"
  indexes :: "index list"
  constraints :: "constraint list"
  dialect_options :: dialect_options
  selectable :: 'q
  materialized :: bool
  replace :: bool
  cascade :: "bool option"

datatype 'q CreateView = CreateView (create_element: "'q View") (if_not_exists: bool)

datatype 'q DropView = DropView (drop_element: "'q View") (if_exists: bool)

datatype RefreshMaterializedView =
  RefreshMaterializedView (refresh_name: string) (concurrently: bool)

text \<open>
  What a compiler hands to the compile functions: the dialect's identifier quoting
  \<open>compiler.dialect.identifier_preparer.quote\<close> and the query renderer
  \<open>compiler.sql_compiler.process\<close> with its \<open>literal_binds\<close> flag.
\<close>

record 'q compiler =
  quote :: "string \<Rightarrow> string"
  process :: "'q \<Rightarrow> bool \<Rightarrow> string"

subsection \<open>The compile functions\<close>

definition storage_parameter_text :: "string \<times> string \<Rightarrow> error + string" where
  "storage_parameter_text sp = py_percent ''%s = %s'' [fst sp, snd sp]"

definition compile_create_materialized_view ::
    "'q compiler \<Rightarrow> 'q CreateView \<Rightarrow> error + string" where
  "compile_create_materialized_view cmplr create =
     (let element = create_element create;
          withclause = dict_get (dict_get (dialect_options element) ''postgresql'' []) ''with'' [];
          withclause_text =
            (if withclause \<noteq> [] then
               (case collect (map storage_parameter_text withclause) of
                  Inl e \<Rightarrow> Inl e
                | Inr texts \<Rightarrow> py_percent '' WITH (%s)'' [str_join '', '' texts])
             else Inr [])
      in case withclause_text of
           Inl e \<Rightarrow> Inl e
         | Inr wt \<Rightarrow>
             py_format ''CREATE {}{}VIEW {}{} AS {}''
               [if replace element then ''OR REPLACE '' else [],
                if materialized element then ''MATERIALIZED '' else [],
                quote cmplr (name element),
                wt,
                process cmplr (selectable element) True])"

definition compile_drop_materialized_view ::
    "'q compiler \<Rightarrow> 'q DropView \<Rightarrow> error + string" where
  "compile_drop_materialized_view cmplr create =
     (let element = drop_element create
      in case cascade element of
           None \<Rightarrow> Inl AttributeError
         | Some c \<Rightarrow>
             py_format ''DROP {}VIEW IF EXISTS {} {}''
               [if materialized element then ''MATERIALIZED '' else [],
                quote cmplr (name element),
                if c then ''CASCADE'' else []])"

definition compile_refresh_materialized_view ::
    "'q compiler \<Rightarrow> RefreshMaterializedView \<Rightarrow> error + string" where
  "compile_refresh_materialized_view cmplr element =
     py_format_kw ''REFRESH MATERIALIZED VIEW {concurrently}{name}''
       [(''concurrently'', if concurrently element then ''CONCURRENTLY '' else []),
        (''name'', quote cmplr (refresh_name element))]"

subsection \<open>The state the module works on\<close>

text \<open>
  The three closures each factory registers on the caller's container; each holds the
  view it was created for.
\<close>

datatype 'q hook =
    Hook_create_view "'q View"
  | Hook_create_indexes "'q View"
  | Hook_drop_view "'q View"

text \<open>
  A \<open>MetaData\<close> container: the keys of its table collection in registration order,
  and its listeners, each with the event name it was registered for.
\<close>

record 'q MetaData =
  tables :: "string list"
  listeners :: "(string \<times> 'q hook) list"

text \<open>The DDL statements a connection is asked to execute.\<close>

datatype 'q ddl =
    CreateTable string
  | DropTable string
  | CreateIndex index
  | DDL_CreateView "'q CreateView"
  | DDL_DropView "'q DropView"

text \<open>
  The world: the class attribute \<open>View.__visit_name__\<close>, the store of containers
  (\<open>sa.MetaData()\<close> allocates the next address), and the statements executed so far,
  oldest first.
\<close>

record 'q world =
  visit_name :: string
  metas :: "nat \<Rightarrow> 'q MetaData"
  allocated :: nat
  executed :: "'q ddl list"

definition init_world :: "'q world" where
  "init_world =
     \<lparr>visit_name = ''table'',
      metas = (\<lambda>a. \<lparr>tables = [], listeners = []\<rparr>),
      allocated = 0,
      executed = []\<rparr>"

text \<open>
  A connection: its dialect's compiler, and which statements its database accepts
  (a refused statement raises).
\<close>

record 'q connection =
  dialect :: "'q compiler"
  accepts :: "'q ddl \<Rightarrow> bool"

text \<open>The toolkit's own operations on containers, as far as the module uses them.\<close>

definition MetaData_new :: "'q world \<Rightarrow> nat \<times> 'q world" where
  "MetaData_new w =
     (allocated w,
      w\<lparr>metas := (metas w)(allocated w := \<lparr>tables = [], listeners = []\<rparr>),
        allocated := Suc (allocated w)\<rparr>)"

definition add_table :: "nat \<Rightarrow> string \<Rightarrow> 'q world \<Rightarrow> 'q world" where
  "add_table m key w =
     w\<lparr>metas := (metas w)(m := (metas w m)\<lparr>tables := tables (metas w m) @ [key]\<rparr>)\<rparr>"

definition listens_for :: "nat \<Rightarrow> string \<Rightarrow> 'q hook \<Rightarrow> 'q world \<Rightarrow> 'q world" where
  "listens_for m event h w =
     w\<lparr>metas := (metas w)(m := (metas w m)\<lparr>listeners := listeners (metas w m) @ [(event, h)]\<rparr>)\<rparr>"

subsection \<open>The View entity\<close>

fun columns_of :: "schema_item list \<Rightarrow> column list" where
  "columns_of [] = []"
| "columns_of (Col c # xs) = c # columns_of xs"
| "columns_of (Idx i # xs) = columns_of xs"

fun indexes_of :: "schema_item list \<Rightarrow> index list" where
  "indexes_of [] = []"
| "indexes_of (Col c # xs) = indexes_of xs"
| "indexes_of (Idx i # xs) = i # indexes_of xs"

text \<open>
  \<open>View.__init__(self, name, metadata, selectable, materialized, replace, *args, **kwargs)\<close>.
  The base constructor runs first: it files the entity under its name in the
  container's table collection and keeps the schema items and the dialect options.
  Its own failures (they belong to the toolkit) are not modelled. Then the check of
  the two flags, then the three attributes.
\<close>

definition View_init ::
    "string \<Rightarrow> nat \<Rightarrow> 'q \<Rightarrow> bool \<Rightarrow> bool \<Rightarrow> schema_item list \<Rightarrow> dialect_options \<Rightarrow>
     'q world \<Rightarrow> error + ('q View \<times> 'q world)" where
  "View_init nm md sel mat rep args kwargs w =
     (let w1 = add_table md nm w
      in if mat \<and> rep then Inl ValueError
         else Inr (\<lparr>name = nm, metadata = md,
                    columns = columns_of args, indexes = indexes_of args,
                    constraints = [], dialect_options = kwargs,
                    selectable = sel, materialized = mat, replace = rep,
                    cascade = None\<rparr>, w1))"

text \<open>
  \<open>Table.append_constraint\<close>, the toolkit's, for a primary-key constraint given by
  column names. The table looks each name up among its columns by key, and a name that
  is no column's key raises. The columns found get the primary-key flag, and the
  constraint is filed with the table. (The module calls it on a view none of whose
  columns carries the flag yet.)
\<close>

definition append_constraint :: "constraint \<Rightarrow> 'q View \<Rightarrow> error + 'q View" where
  "append_constraint k v =
     (if list_all (\<lambda>n. n \<in> set (map col_key (columns v))) (pk_columns k)
      then Inr (v\<lparr>constraints := constraints v @ [k],
                  columns := map (\<lambda>c. if col_key c \<in> set (pk_columns k)
                                       then c\<lparr>primary_key := True\<rparr> else c)
                                 (columns v)\<rparr>)
      else Inl ConstraintColumnNotFoundError)"

subsection \<open>Executing DDL\<close>

text \<open>
  Executing a statement compiles it first. The two view statements are compiled by
  this module (and can raise there); the others by the toolkit.
\<close>

fun compile_error :: "'q compiler \<Rightarrow> 'q ddl \<Rightarrow> error option" where
  "compile_error c (DDL_CreateView s) =
     (case compile_create_materialized_view c s of Inl e \<Rightarrow> Some e | Inr t \<Rightarrow> None)"
| "compile_error c (DDL_DropView s) =
     (case compile_drop_materialized_view c s of Inl e \<Rightarrow> Some e | Inr t \<Rightarrow> None)"
| "compile_error c (CreateTable t) = None"
| "compile_error c (DropTable t) = None"
| "compile_error c (CreateIndex i) = None"

definition execute :: "'q connection \<Rightarrow> 'q ddl \<Rightarrow> 'q world \<Rightarrow> (error + unit) \<times> 'q world" where
  "execute conn stmt w =
     (case compile_error (dialect conn) stmt of
        Some e \<Rightarrow> (Inl e, w)
      | None \<Rightarrow>
          if accepts conn stmt then (Inr (), w\<lparr>executed := executed w @ [stmt]\<rparr>)
          else (Inl DatabaseError, w))"

text \<open>A sequence of steps; the first exception ends it.\<close>

fun run_all ::
    "('q world \<Rightarrow> (error + unit) \<times> 'q world) list \<Rightarrow> 'q world \<Rightarrow> (error + unit) \<times> 'q world" where
  "run_all [] w = (Inr (), w)"
| "run_all (f # fs) w =
     (case f w of
        (Inl e, w') \<Rightarrow> (Inl e, w')
      | (Inr u, w') \<Rightarrow> run_all fs w')"

text \<open>
  \<open>bind._run_ddl_visitor(visitorcallable, element, checkfirst)\<close>: the visitor looks the
  method up by the element's dispatch tag, \<open>visit_<tag>\<close>. \<open>visit_view\<close> is this
  module's: it executes \<open>CreateView(view)\<close> or \<open>DropView(view)\<close>, each built with its
  flag at the default (the DDL events it fires around the statement have no listener
  here). \<open>visit_table\<close> is the base visitor's table DDL; a tag with no method does
  nothing.
\<close>

datatype visitor = ExtSchemaGenerator | ExtSchemaDropper

definition visit_view ::
    "'q connection \<Rightarrow> visitor \<Rightarrow> 'q View \<Rightarrow> 'q world \<Rightarrow> (error + unit) \<times> 'q world" where
  "visit_view conn vis view w =
     (case vis of
        ExtSchemaGenerator \<Rightarrow> execute conn (DDL_CreateView (CreateView view False)) w
      | ExtSchemaDropper \<Rightarrow> execute conn (DDL_DropView (DropView view False)) w)"

definition visit_table ::
    "'q connection \<Rightarrow> visitor \<Rightarrow> 'q View \<Rightarrow> 'q world \<Rightarrow> (error + unit) \<times> 'q world" where
  "visit_table conn vis view w =
     (case vis of
        ExtSchemaGenerator \<Rightarrow> execute conn (CreateTable (name view)) w
      | ExtSchemaDropper \<Rightarrow> execute conn (DropTable (name view)) w)"

definition run_ddl_visitor ::
    "'q connection \<Rightarrow> visitor \<Rightarrow> 'q View \<Rightarrow> bool \<Rightarrow> 'q world \<Rightarrow> (error + unit) \<times> 'q world" where
  "run_ddl_visitor bind vis element checkfirst w =
     (if visit_name w = ''view'' then visit_view bind vis element w
      else if visit_name w = ''table'' then visit_table bind vis element w
      else (Inr (), w))"

text \<open>\<open>View.create_view\<close> and \<open>View.drop_view\<close>: \<open>try\<close> the visitor, \<open>finally\<close> reset the tag.\<close>

definition View_create_view ::
    "'q connection \<Rightarrow> 'q View \<Rightarrow> bool \<Rightarrow> 'q world \<Rightarrow> (error + unit) \<times> 'q world" where
  "View_create_view bind self checkfirst w =
     (let w1 = w\<lparr>visit_name := ''view''\<rparr>;
          r = run_ddl_visitor bind ExtSchemaGenerator self checkfirst w1
      in (fst r, (snd r)\<lparr>visit_name := ''table''\<rparr>))"

definition View_drop_view ::
    "'q connection \<Rightarrow> 'q View \<Rightarrow> bool \<Rightarrow> 'q world \<Rightarrow> (error + unit) \<times> 'q world" where
  "View_drop_view bind self checkfirst w =
     (let w1 = w\<lparr>visit_name := ''view''\<rparr>;
          r = run_ddl_visitor bind ExtSchemaDropper self checkfirst w1
      in (fst r, (snd r)\<lparr>visit_name := ''table''\<rparr>))"

subsection \<open>The factory functions\<close>

text \<open>
  \<open>create_view_from_selectable\<close>. \<open>get_columns\<close> (in \<open>sqlalchemy_utils.functions\<close>) is a
  parameter: it gives the selectable's columns in their native order. A parameter
  whose default is \<open>None\<close> is an option; \<open>**kwargs\<close> is the dialect option bag handed on
  to the constructor.
\<close>

definition derived_column :: "(string \<times> string) list \<Rightarrow> column \<Rightarrow> column" where
  "derived_column aliases c =
     \<lparr>col_name = col_name c,
      col_type = col_type c,
      col_key = dict_get aliases (col_name c) (col_name c),
      primary_key = primary_key c\<rparr>"

definition create_view_from_selectable ::
    "('q \<Rightarrow> column list) \<Rightarrow> string \<Rightarrow> 'q \<Rightarrow> index list option \<Rightarrow> nat option \<Rightarrow>
     (string \<times> string) list option \<Rightarrow> bool \<Rightarrow> bool \<Rightarrow> dialect_options \<Rightarrow>
     'q world \<Rightarrow> error + ('q View \<times> 'q world)" where
  "create_view_from_selectable get_columns nm sel indexes_arg metadata_arg aliases_arg
       mat rep kwargs w =
     (let idxs = (case indexes_arg of None \<Rightarrow> [] | Some i \<Rightarrow> i);
          (md, w1) = (case metadata_arg of None \<Rightarrow> MetaData_new w | Some m \<Rightarrow> (m, w));
          aliases = (case aliases_arg of None \<Rightarrow> [] | Some a \<Rightarrow> a);
          args = map (\<lambda>c. Col (derived_column aliases c)) (get_columns sel) @ map Idx idxs
      in case View_init nm md sel mat rep args kwargs w1 of
           Inl e \<Rightarrow> Inl e
         | Inr (view, w2) \<Rightarrow>
             if \<not> list_ex primary_key (get_columns sel)
             then (case append_constraint
                          (PrimaryKeyConstraint (map col_name (get_columns sel))) view of
                     Inl e \<Rightarrow> Inl e
                   | Inr view' \<Rightarrow> Inr (view', w2))
             else Inr (view, w2))"

text \<open>
  \<open>create_materialized_view(name, selectable, metadata, indexes=None, aliases=None, **kwargs)\<close>.
\<close>

definition create_materialized_view ::
    "('q \<Rightarrow> column list) \<Rightarrow> string \<Rightarrow> 'q \<Rightarrow> nat \<Rightarrow> index list option \<Rightarrow>
     (string \<times> string) list option \<Rightarrow> dialect_options \<Rightarrow>
     'q world \<Rightarrow> error + ('q View \<times> 'q world)" where
  "create_materialized_view get_columns nm sel md indexes_arg aliases_arg kwargs w =
     (case create_view_from_selectable get_columns nm sel indexes_arg None aliases_arg
             True False kwargs w of
        Inl e \<Rightarrow> Inl e
      | Inr (view, w1) \<Rightarrow>
          Inr (view,
               listens_for md ''before_drop'' (Hook_drop_view view)
                 (listens_for md ''after_create'' (Hook_create_indexes view)
                    (listens_for md ''after_create'' (Hook_create_view view) w1))))"

text \<open>
  \<open>create_view(name, selectable, metadata, cascade_on_drop=True, replace=False, **kwargs)\<close>.
  Its \<open>**kwargs\<close> go to \<open>create_view_from_selectable\<close> by keyword, so they can carry
  \<open>indexes\<close>, \<open>aliases\<close> and \<open>materialized\<close> besides the dialect options.
\<close>

record view_kwargs =
  kw_indexes :: "index list option"
  kw_aliases :: "(string \<times> string) list option"
  kw_materialized :: "bool option"
  kw_dialect_options :: dialect_options

definition create_view ::
    "('q \<Rightarrow> column list) \<Rightarrow> string \<Rightarrow> 'q \<Rightarrow> nat \<Rightarrow> bool \<Rightarrow> bool \<Rightarrow> view_kwargs \<Rightarrow>
     'q world \<Rightarrow> error + ('q View \<times> 'q world)" where
  "create_view get_columns nm sel md cascade_on_drop rep kwargs w =
     (case create_view_from_selectable get_columns nm sel (kw_indexes kwargs) None
             (kw_aliases kwargs)
             (case kw_materialized kwargs of None \<Rightarrow> False | Some b \<Rightarrow> b)
             rep (kw_dialect_options kwargs) w of
        Inl e \<Rightarrow> Inl e
      | Inr (view, w1) \<Rightarrow>
          Inr (view,
               listens_for md ''before_drop'' (Hook_drop_view view)
                 (listens_for md ''after_create'' (Hook_create_indexes view)
                    (listens_for md ''after_create'' (Hook_create_view view) w1))))"

subsection \<open>The hooks and the container-wide passes\<close>

fun run_hook :: "'q connection \<Rightarrow> 'q hook \<Rightarrow> 'q world \<Rightarrow> (error + unit) \<times> 'q world" where
  "run_hook conn (Hook_create_view view) w = View_create_view conn view False w"
| "run_hook conn (Hook_create_indexes view) w =
     run_all (map (\<lambda>idx. execute conn (CreateIndex idx)) (indexes view)) w"
| "run_hook conn (Hook_drop_view view) w = View_drop_view conn view False w"

definition listeners_for :: "string \<Rightarrow> 'q MetaData \<Rightarrow> 'q hook list" where
  "listeners_for event m = map snd (filter (\<lambda>l. fst l = event) (listeners m))"

text \<open>
  Modelled from the spec: the toolkit's \<open>MetaData.create_all\<close> and \<open>MetaData.drop_all\<close>
  are not part of this module. Sections 4.6, 5 and 6 of the specification describe
  them: the pass fires the container's before-event listeners, runs the DDL of every
  table of the container (in dependency order, which for the drop pass is taken as
  the reverse of the registration order), and then fires the after-event listeners, in
  registration order; the first failure ends the pass.
\<close>

definition create_all :: "'q connection \<Rightarrow> nat \<Rightarrow> 'q world \<Rightarrow> (error + unit) \<times> 'q world" where
  "create_all conn m w =
     run_all
       (map (run_hook conn) (listeners_for ''before_create'' (metas w m))
        @ map (\<lambda>t. execute conn (CreateTable t)) (tables (metas w m))
        @ map (run_hook conn) (listeners_for ''after_create'' (metas w m))) w"

definition drop_all :: "'q connection \<Rightarrow> nat \<Rightarrow> 'q world \<Rightarrow> (error + unit) \<times> 'q world" where
  "drop_all conn m w =
     run_all
       (map (run_hook conn) (listeners_for ''before_drop'' (metas w m))
        @ map (\<lambda>t. execute conn (DropTable t)) (rev (tables (metas w m)))
        @ map (run_hook conn) (listeners_for ''after_drop'' (metas w m))) w"

subsection \<open>Refreshing a materialized view\<close>

text \<open>
  The session is the toolkit's; the module calls its \<open>flush\<close> and its \<open>execute\<close>. The
  model keeps the calls a session has received, oldest first.
\<close>

datatype session_call = Flush | Execute RefreshMaterializedView

type_synonym session = "session_call list"

definition session_flush :: "session \<Rightarrow> session" where
  "session_flush s = s @ [Flush]"

definition session_execute :: "RefreshMaterializedView \<Rightarrow> session \<Rightarrow> session" where
  "session_execute stmt s = s @ [Execute stmt]"

definition refresh_materialized_view :: "session \<Rightarrow> string \<Rightarrow> bool \<Rightarrow> unit \<times> session" where
  "refresh_materialized_view s nm conc =
     (let s1 = session_flush s;
          s2 = session_execute (RefreshMaterializedView nm conc) s1
      in ((), s2))"

text \<open>
  The view \<open>create_view_from_selectable\<close> has in hand when the constructor returns,
  before the primary-key constraint is appended: a name for it in the proofs.
\<close>

definition base_view ::
  "('q \<Rightarrow> column list) \<Rightarrow> string \<Rightarrow> 'q \<Rightarrow> index list option \<Rightarrow> nat \<Rightarrow>
     (string \<times> string) list option \<Rightarrow> bool \<Rightarrow> bool \<Rightarrow> dialect_options \<Rightarrow> 'q View" where
  "base_view gc nm sel ia md aa mat rep kw =
     \<lparr>name = nm, metadata = md,
      columns = map (derived_column (case aa of None \<Rightarrow> [] | Some a \<Rightarrow> a)) (gc sel),
      indexes = (case ia of None \<Rightarrow> [] | Some i \<Rightarrow> i),
      constraints = [], dialect_options = kw, selectable = sel,
      materialized = mat, replace = rep, cascade = None\<rparr>"

subsection \<open>The worlds the module reaches\<close>

text \<open>
  The class body sets the tag to \<open>table\<close>; a program then allocates containers, defines
  base tables, builds views and runs them and the container-wide passes against
  connections. A call that raises leaves the world it raised in only where the model
  gives it (the visitor runs and the passes); a constructor that raises leaves the world
  as it was.
\<close>

inductive reachable :: "'q world \<Rightarrow> bool" where
  initial: "reachable init_world"
| new_container: "reachable w \<Longrightarrow> reachable (snd (MetaData_new w))"
| base_table: "reachable w \<Longrightarrow> reachable (add_table m key w)"
| construct:
    "reachable w \<Longrightarrow> View_init nm md sel mat rep args kw w = Inr (v, w') \<Longrightarrow> reachable w'"
| from_selectable:
    "reachable w \<Longrightarrow>
     create_view_from_selectable gc nm sel ia ma aa mat rep kw w = Inr (v, w') \<Longrightarrow>
     reachable w'"
| plain_factory:
    "reachable w \<Longrightarrow> create_view gc nm sel md cod rep kws w = Inr (v, w') \<Longrightarrow> reachable w'"
| materialized_factory:
    "reachable w \<Longrightarrow>
     create_materialized_view gc nm sel md ia aa kw w = Inr (v, w') \<Longrightarrow> reachable w'"
| create: "reachable w \<Longrightarrow> reachable (snd (View_create_view bind v cf w))"
| drop: "reachable w \<Longrightarrow> reachable (snd (View_drop_view bind v cf w))"
| create_pass: "reachable w \<Longrightarrow> reachable (snd (create_all bind m w))"
| drop_pass: "reachable w \<Longrightarrow> reachable (snd (drop_all bind m w))"

subsection \<open>Sample inputs\<close>

text \<open>
  A dialect that wraps an identifier in double quotes, over queries kept as their
  rendered text, and three selectables' columns.
\<close>

definition ansi_compiler :: "string compiler" where
  "ansi_compiler =
     \<lparr>compiler.quote = (\<lambda>s. CHR 0x22 # s @ [CHR 0x22]),
      process = (\<lambda>q literal_binds. q)\<rparr>"

definition plain_view :: "string \<Rightarrow> bool \<Rightarrow> bool \<Rightarrow> dialect_options \<Rightarrow> bool option \<Rightarrow> string View" where
  "plain_view nm mat rep opts casc =
     \<lparr>name = nm, metadata = 0, columns = [], indexes = [], constraints = [],
      dialect_options = opts, selectable = ''SELECT t.id FROM t'',
      materialized = mat, replace = rep, cascade = casc\<rparr>"

definition users_columns :: "string \<Rightarrow> column list" where
  "users_columns q =
     [\<lparr>col_name = ''id'', col_type = ''INTEGER'', col_key = ''id'', primary_key = True\<rparr>,
      \<lparr>col_name = ''name'', col_type = ''VARCHAR'', col_key = ''name'', primary_key = False\<rparr>,
      \<lparr>col_name = ''email'', col_type = ''VARCHAR'', col_key = ''email'', primary_key = False\<rparr>]"

definition ab_columns :: "string \<Rightarrow> column list" where
  "ab_columns q =
     [\<lparr>col_name = ''a'', col_type = ''INTEGER'', col_key = ''a'', primary_key = False\<rparr>,
      \<lparr>col_name = ''b'', col_type = ''INTEGER'', col_key = ''b'', primary_key = False\<rparr>]"

definition full_name_columns :: "string \<Rightarrow> column list" where
  "full_name_columns q =
     [\<lparr>col_name = ''full_name'', col_type = ''VARCHAR'', col_key = ''full_name'',
       primary_key = True\<rparr>]"

text \<open>The view \<open>create_view_from_selectable\<close> builds from the columns \<open>a\<close> and \<open>b\<close>.\<close>

definition ab_v1 :: "string View" where
  "ab_v1 =
     \<lparr>name = ''v1'', metadata = 0,
      columns =
        [\<lparr>col_name = ''a'', col_type = ''INTEGER'', col_key = ''a'', primary_key = True\<rparr>,
         \<lparr>col_name = ''b'', col_type = ''INTEGER'', col_key = ''b'', primary_key = True\<rparr>],
      indexes = [], constraints = [PrimaryKeyConstraint [''a'', ''b'']],
      dialect_options = [], selectable = ''SELECT a, b FROM t'',
      materialized = False, replace = False, cascade = None\<rparr>"

definition no_kwargs :: view_kwargs where
  "no_kwargs =
     \<lparr>kw_indexes = None, kw_aliases = None, kw_materialized = None, kw_dialect_options = []\<rparr>"

definition accept_all :: "string connection" where
  "accept_all = \<lparr>dialect = ansi_compiler, accepts = (\<lambda>stmt. True)\<rparr>"

definition refuse_all :: "string connection" where
  "refuse_all = \<lparr>dialect = ansi_compiler, accepts = (\<lambda>stmt. False)\<rparr>"

text \<open>
  A container at address 0 holding the base table \<open>users\<close>, and the view \<open>create_view\<close>
  builds over it from \<open>SELECT * FROM users\<close>.
\<close>

definition one_table_world :: "string world" where
  "one_table_world = add_table 0 ''users'' (snd (MetaData_new init_world))"

definition users_v1 :: "string View" where
  "users_v1 =
     \<lparr>name = ''v1'', metadata = 1, columns = users_columns ''SELECT * FROM users'',
      indexes = [], constraints = [], dialect_options = [],
      selectable = ''SELECT * FROM users'', materialized = False, replace = False,
      cascade = None\<rparr>"

section \<open>Properties\<close>

subsection \<open>Auxiliary facts\<close>

text \<open>What the module's templates give.\<close>

lemma format_create:
  "py_format ''CREATE {}{}VIEW {}{} AS {}'' [a, b, c, d, e] =
     Inr (''CREATE '' @ a @ b @ ''VIEW '' @ c @ d @ '' AS '' @ e)"
  by (simp add: prepend_def)

lemma format_drop:
  "py_format ''DROP {}VIEW IF EXISTS {} {}'' [a, b, c] =
     Inr (''DROP '' @ a @ ''VIEW IF EXISTS '' @ b @ '' '' @ c)"
  by (simp add: prepend_def)

lemma format_refresh:
  "py_format_kw ''REFRESH MATERIALIZED VIEW {concurrently}{name}''
       [(''concurrently'', a), (''name'', b)] =
     Inr (''REFRESH MATERIALIZED VIEW '' @ a @ b)"
  by (simp add: prepend_def field_name_def after_field_def)

lemma percent_with: "py_percent '' WITH (%s)'' [a] = Inr ('' WITH ('' @ a @ '')'')"
  by (simp add: prepend_def)

lemma collect_storage_parameters:
  "collect (map storage_parameter_text ps) = Inr (map (\<lambda>sp. fst sp @ '' = '' @ snd sp) ps)"
  by (induction ps) (simp_all add: storage_parameter_text_def prepend_def)

lemma columns_of_args: "columns_of (map Col cs @ map Idx is) = cs"
proof (induction cs)
  case Nil
  show ?case by (induction "is") simp_all
next
  case (Cons c cs)
  then show ?case by simp
qed

lemma columns_of_derived:
  "columns_of (map (\<lambda>c. Col (f c)) cs @ map Idx is) = map f cs"
  using columns_of_args [of "map f cs" "is"] by (simp add: comp_def)

lemma indexes_of_args: "indexes_of (map Col cs @ map Idx is) = is"
proof (induction cs)
  case Nil
  show ?case by (induction "is") simp_all
next
  case (Cons c cs)
  then show ?case by simp
qed

lemma indexes_of_derived:
  "indexes_of (map (\<lambda>c. Col (f c)) cs @ map Idx is) = is"
  using indexes_of_args [of "map f cs" "is"] by (simp add: comp_def)

lemma columns_of_derived_only:
  "columns_of (map (\<lambda>c. Col (f c)) cs) = map f cs"
  using columns_of_derived [of f cs "[]"] by simp

lemma indexes_of_derived_only:
  "indexes_of (map (\<lambda>c. Col (f c)) cs) = []"
  using indexes_of_derived [of f cs "[]"] by simp

lemma resolved_keys:
  assumes "set ns \<subseteq> f ` set ns"
  shows "f ` set ns = set ns"
proof -
  have "card (f ` set ns) \<le> card (set ns)" by (rule card_image_le) simp
  with assms have "set ns = f ` set ns" by (intro card_seteq) simp_all
  then show ?thesis by simp
qed

lemma flag_all:
  assumes "list_all (\<lambda>n. n \<in> set (map col_key (map (derived_column al) cs))) (map col_name cs)"
  shows "map (\<lambda>c. if col_key c \<in> set (map col_name cs) then c\<lparr>primary_key := True\<rparr> else c)
           (map (derived_column al) cs)
         = map (\<lambda>c. (derived_column al c)\<lparr>primary_key := True\<rparr>) cs"
proof -
  let ?f = "\<lambda>n. dict_get al n n"
  have keys: "set (map col_key (map (derived_column al) cs)) = ?f ` set (map col_name cs)"
    by (simp add: derived_column_def image_image)
  have "\<forall>n\<in>set (map col_name cs). n \<in> ?f ` set (map col_name cs)"
    using assms unfolding list_all_iff keys .
  then have "set (map col_name cs) \<subseteq> ?f ` set (map col_name cs)" by blast
  then have eq: "?f ` set (map col_name cs) = set (map col_name cs)"
    by (rule resolved_keys)
  have "col_key (derived_column al c) \<in> set (map col_name cs)" if "c \<in> set cs" for c
  proof -
    have "col_key (derived_column al c) \<in> set (map col_key (map (derived_column al) cs))"
      using that by simp
    then show ?thesis unfolding keys eq .
  qed
  then show ?thesis by simp
qed

lemma cvfs_unfold:
  "create_view_from_selectable gc nm sel ia ma aa mat rep kw w =
     (if mat \<and> rep then Inl ValueError
      else if list_ex primary_key (gc sel)
      then Inr (base_view gc nm sel ia (case ma of None \<Rightarrow> allocated w | Some m \<Rightarrow> m) aa mat rep kw,
                add_table (case ma of None \<Rightarrow> allocated w | Some m \<Rightarrow> m) nm
                  (case ma of None \<Rightarrow> snd (MetaData_new w) | Some m \<Rightarrow> w))
      else (case append_constraint (PrimaryKeyConstraint (map col_name (gc sel)))
                   (base_view gc nm sel ia (case ma of None \<Rightarrow> allocated w | Some m \<Rightarrow> m)
                      aa mat rep kw) of
              Inl e \<Rightarrow> Inl e
            | Inr v' \<Rightarrow>
                Inr (v', add_table (case ma of None \<Rightarrow> allocated w | Some m \<Rightarrow> m) nm
                           (case ma of None \<Rightarrow> snd (MetaData_new w) | Some m \<Rightarrow> w))))"
  by (cases ma; cases ia)
     (simp_all add: create_view_from_selectable_def View_init_def Let_def MetaData_new_def
        base_view_def columns_of_derived indexes_of_derived columns_of_derived_only
        indexes_of_derived_only cong: sum.case_cong)

lemma append_constraint_Inr:
  "append_constraint k v = Inr v' \<Longrightarrow>
     list_all (\<lambda>n. n \<in> set (map col_key (columns v))) (pk_columns k)
     \<and> v' = v\<lparr>constraints := constraints v @ [k],
              columns := map (\<lambda>c. if col_key c \<in> set (pk_columns k)
                                   then c\<lparr>primary_key := True\<rparr> else c)
                             (columns v)\<rparr>"
  by (simp add: append_constraint_def split: if_splits)

lemma append_composite_key:
  assumes "append_constraint (PrimaryKeyConstraint (map col_name (gc sel)))
             (base_view gc nm sel ia md aa mat rep kw) = Inr v'"
  shows "v' = (base_view gc nm sel ia md aa mat rep kw)
            \<lparr>constraints := [PrimaryKeyConstraint (map col_name (gc sel))],
             columns := map (\<lambda>c. (derived_column (case aa of None \<Rightarrow> [] | Some a \<Rightarrow> a) c)
                                      \<lparr>primary_key := True\<rparr>) (gc sel)\<rparr>"
proof -
  let ?al = "case aa of None \<Rightarrow> [] | Some a \<Rightarrow> a"
  let ?b = "base_view gc nm sel ia md aa mat rep kw"
  let ?k = "PrimaryKeyConstraint (map col_name (gc sel))"
  have cols: "columns ?b = map (derived_column ?al) (gc sel)"
    and cons: "constraints ?b = []"
    by (simp_all add: base_view_def)
  note r = append_constraint_Inr [OF assms]
  have ok: "list_all (\<lambda>n. n \<in> set (map col_key (map (derived_column ?al) (gc sel))))
              (map col_name (gc sel))"
    using r [THEN conjunct1] by (simp only: cols constraint.sel)
  have "v' = ?b\<lparr>constraints := constraints ?b @ [?k],
                 columns := map (\<lambda>c. if col_key c \<in> set (map col_name (gc sel))
                                      then c\<lparr>primary_key := True\<rparr> else c)
                                (map (derived_column ?al) (gc sel))\<rparr>"
    using r [THEN conjunct2] by (simp only: cols constraint.sel)
  then show ?thesis by (simp only: flag_all [OF ok] cons append_Nil)
qed

text \<open>What a successful \<open>create_view_from_selectable\<close> returns, field by field.\<close>

lemma cvfs_Inr:
  assumes "create_view_from_selectable gc nm sel ia ma aa mat rep kw w = Inr (v, w')"
  shows "\<not> (mat \<and> rep)"
    and "name v = nm"
    and "metadata v = (case ma of None \<Rightarrow> allocated w | Some m \<Rightarrow> m)"
    and "columns v =
           (if list_ex primary_key (gc sel)
            then map (derived_column (case aa of None \<Rightarrow> [] | Some a \<Rightarrow> a)) (gc sel)
            else map (\<lambda>c. (derived_column (case aa of None \<Rightarrow> [] | Some a \<Rightarrow> a) c)
                              \<lparr>primary_key := True\<rparr>) (gc sel))"
    and "indexes v = (case ia of None \<Rightarrow> [] | Some i \<Rightarrow> i)"
    and "constraints v = (if list_ex primary_key (gc sel) then []
                          else [PrimaryKeyConstraint (map col_name (gc sel))])"
    and "dialect_options v = kw"
    and "selectable v = sel"
    and "materialized v = mat"
    and "replace v = rep"
    and "cascade v = None"
    and "w' = add_table (metadata v) nm (case ma of None \<Rightarrow> snd (MetaData_new w) | Some m \<Rightarrow> w)"
proof -
  let ?md = "case ma of None \<Rightarrow> allocated w | Some m \<Rightarrow> m"
  let ?b = "base_view gc nm sel ia ?md aa mat rep kw"
  let ?w = "add_table ?md nm (case ma of None \<Rightarrow> snd (MetaData_new w) | Some m \<Rightarrow> w)"
  from assms show flags: "\<not> (mat \<and> rep)"
    by (auto simp add: cvfs_unfold split: if_splits)
  have v: "v = (if list_ex primary_key (gc sel) then ?b
                else ?b\<lparr>constraints := [PrimaryKeyConstraint (map col_name (gc sel))],
                         columns := map (\<lambda>c. (derived_column (case aa of None \<Rightarrow> [] | Some a \<Rightarrow> a) c)
                                      \<lparr>primary_key := True\<rparr>) (gc sel)\<rparr>)"
    and w: "w' = ?w"
    using assms flags
    by (auto simp add: cvfs_unfold split: if_splits sum.splits dest: append_composite_key)
  show "name v = nm" by (simp add: v base_view_def)
  show md: "metadata v = ?md" by (simp add: v base_view_def)
  show "columns v =
           (if list_ex primary_key (gc sel)
            then map (derived_column (case aa of None \<Rightarrow> [] | Some a \<Rightarrow> a)) (gc sel)
            else map (\<lambda>c. (derived_column (case aa of None \<Rightarrow> [] | Some a \<Rightarrow> a) c)
                              \<lparr>primary_key := True\<rparr>) (gc sel))"
    by (simp add: v base_view_def)
  show "indexes v = (case ia of None \<Rightarrow> [] | Some i \<Rightarrow> i)" by (simp add: v base_view_def)
  show "constraints v = (if list_ex primary_key (gc sel) then []
                          else [PrimaryKeyConstraint (map col_name (gc sel))])"
    by (simp add: v base_view_def)
  show "dialect_options v = kw" by (simp add: v base_view_def)
  show "selectable v = sel" by (simp add: v base_view_def)
  show "materialized v = mat" by (simp add: v base_view_def)
  show "replace v = rep" by (simp add: v base_view_def)
  show "cascade v = None" by (simp add: v base_view_def)
  show "w' = add_table (metadata v) nm (case ma of None \<Rightarrow> snd (MetaData_new w) | Some m \<Rightarrow> w)"
    by (simp add: w md)
qed

lemma cvfs_Inl:
  "create_view_from_selectable gc nm sel ia ma aa mat rep kw w = Inl e \<Longrightarrow>
     e = ValueError \<and> mat \<and> rep
     \<or> e = ConstraintColumnNotFoundError \<and> \<not> list_ex primary_key (gc sel)"
  by (auto simp add: cvfs_unfold append_constraint_def split: if_splits sum.splits)

lemma cvfs_total:
  "\<not> (mat \<and> rep) \<Longrightarrow> list_ex primary_key (gc sel) \<Longrightarrow>
     \<exists>v w'. create_view_from_selectable gc nm sel ia ma aa mat rep kw w = Inr (v, w')"
  by (simp add: cvfs_unfold)

lemma ab_view:
  "create_view_from_selectable ab_columns ''v1'' ''SELECT a, b FROM t'' None None None
       False False [] init_world
     = Inr (ab_v1, add_table 0 ''v1'' (snd (MetaData_new init_world)))"
  by (simp add: cvfs_unfold base_view_def append_constraint_def ab_columns_def ab_v1_def
        derived_column_def dict_get_def init_world_def)

lemma execute_visit_name: "visit_name (snd (execute conn stmt w)) = visit_name w"
  by (simp add: execute_def split: option.splits)

lemma run_all_invariant:
  assumes "\<And>f w. f \<in> set fs \<Longrightarrow> P w \<Longrightarrow> P (snd (f w))" and "P w"
  shows "P (snd (run_all fs w))"
  using assms
proof (induction fs arbitrary: w)
  case Nil
  then show ?case by simp
next
  case (Cons f fs)
  have step: "P (snd (f w))" using Cons.prems by simp
  show ?case
  proof (cases "f w")
    case (Pair r w')
    with step have "P w'" by simp
    with Cons Pair show ?thesis by (cases r) simp_all
  qed
qed

lemma run_ddl_visitor_visit_name:
  "visit_name (snd (run_ddl_visitor bind vis v cf w)) = visit_name w"
  by (simp add: run_ddl_visitor_def visit_view_def visit_table_def execute_visit_name
        split: visitor.splits)

lemma create_view_resets: "visit_name (snd (View_create_view bind v cf w)) = ''table''"
  by (simp add: View_create_view_def Let_def)

lemma drop_view_resets: "visit_name (snd (View_drop_view bind v cf w)) = ''table''"
  by (simp add: View_drop_view_def Let_def)

lemma run_hook_tag:
  "visit_name w = ''table'' \<Longrightarrow> visit_name (snd (run_hook conn h w)) = ''table''"
proof (cases h)
  case (Hook_create_view v)
  then show ?thesis by (simp add: create_view_resets)
next
  case (Hook_create_indexes v)
  assume t: "visit_name w = ''table''"
  have "visit_name (snd (run_all (map (\<lambda>idx. execute conn (CreateIndex idx)) (indexes v)) w))
          = ''table''"
    by (rule run_all_invariant [where P = "\<lambda>w. visit_name w = ''table''"])
       (auto simp add: execute_visit_name t)
  with Hook_create_indexes show ?thesis by simp
next
  case (Hook_drop_view v)
  then show ?thesis by (simp add: drop_view_resets)
qed

lemma create_all_tag:
  assumes "visit_name w = ''table''"
  shows "visit_name (snd (create_all conn m w)) = ''table''"
  unfolding create_all_def
  by (rule run_all_invariant [where P = "\<lambda>w. visit_name w = ''table''"])
     (auto simp add: execute_visit_name run_hook_tag assms)

lemma drop_all_tag:
  assumes "visit_name w = ''table''"
  shows "visit_name (snd (drop_all conn m w)) = ''table''"
  unfolding drop_all_def
  by (rule run_all_invariant [where P = "\<lambda>w. visit_name w = ''table''"])
     (auto simp add: execute_visit_name run_hook_tag assms)

lemma cvfs_visit_name:
  assumes "create_view_from_selectable gc nm sel ia ma aa mat rep kw w = Inr (v, w')"
  shows "visit_name w' = visit_name w" and "executed w' = executed w"
  using cvfs_Inr(12) [OF assms]
  by (simp_all add: add_table_def MetaData_new_def split: option.splits)

lemma reachable_tag: "reachable w \<Longrightarrow> visit_name w = ''table''"
proof (induction rule: reachable.induct)
  case initial
  show ?case by (simp add: init_world_def)
next
  case (new_container w)
  then show ?case by (simp add: MetaData_new_def)
next
  case (base_table w m key)
  then show ?case by (simp add: add_table_def)
next
  case (construct w nm md sel mat rep args kw v w')
  then show ?case by (auto simp add: View_init_def Let_def add_table_def split: if_splits)
next
  case (from_selectable w gc nm sel ia ma aa mat rep kw v w')
  then show ?case using cvfs_visit_name(1) by metis
next
  case (plain_factory w gc nm sel md cod rep kws v w')
  then show ?case
    by (auto simp add: create_view_def listens_for_def split: sum.splits dest: cvfs_visit_name(1))
next
  case (materialized_factory w gc nm sel md ia aa kw v w')
  then show ?case
    by (auto simp add: create_materialized_view_def listens_for_def split: sum.splits
          dest: cvfs_visit_name(1))
next
  case (create w bind v cf)
  show ?case by (rule create_view_resets)
next
  case (drop w bind v cf)
  show ?case by (rule drop_view_resets)
next
  case (create_pass w bind m)
  then show ?case by (simp add: create_all_tag)
next
  case (drop_pass w bind m)
  then show ?case by (simp add: drop_all_tag)
qed

lemma factory_result:
  assumes "create_view gc nm sel md cod rep kws w = Inr (v, w')
         \<or> create_materialized_view gc nm sel md ia aa kw w = Inr (v, w')"
  obtains ia' aa' mat rep' kw' w1 where
    "create_view_from_selectable gc nm sel ia' None aa' mat rep' kw' w = Inr (v, w1)"
    and "w' = listens_for md ''before_drop'' (Hook_drop_view v)
                (listens_for md ''after_create'' (Hook_create_indexes v)
                   (listens_for md ''after_create'' (Hook_create_view v) w1))"
  using assms
  by (auto simp add: create_view_def create_materialized_view_def split: sum.splits)

lemma users_view:
  "create_view users_columns ''v1'' ''SELECT * FROM users'' 0 True False no_kwargs one_table_world
     = Inr (users_v1,
            listens_for 0 ''before_drop'' (Hook_drop_view users_v1)
              (listens_for 0 ''after_create'' (Hook_create_indexes users_v1)
                 (listens_for 0 ''after_create'' (Hook_create_view users_v1)
                    (add_table 1 ''v1'' (snd (MetaData_new one_table_world))))))"
  by (simp add: create_view_def create_view_from_selectable_def View_init_def Let_def
        MetaData_new_def add_table_def one_table_world_def init_world_def no_kwargs_def
        users_columns_def derived_column_def dict_get_def append_constraint_def users_v1_def)

lemma compile_create_no_error: "compile_error c (DDL_CreateView s) = None"
  by (cases s)
     (simp add: compile_create_materialized_view_def Let_def dict_get_def
        collect_storage_parameters prepend_def split: option.splits)

lemma run_all_append:
  "run_all (fs @ gs) w =
     (case run_all fs w of (Inl e, w') \<Rightarrow> (Inl e, w') | (Inr u, w') \<Rightarrow> run_all gs w')"
proof (induction fs arbitrary: w)
  case Nil
  show ?case by simp
next
  case (Cons f fs)
  show ?case
  proof (cases "f w")
    case (Pair r w')
    then show ?thesis using Cons by (cases r) simp_all
  qed
qed

lemma run_all_executes:
  assumes "\<And>s. s \<in> set stmts \<Longrightarrow> compile_error (dialect conn) s = None \<and> accepts conn s"
  shows "run_all (map (execute conn) stmts) w = (Inr (), w\<lparr>executed := executed w @ stmts\<rparr>)"
  using assms
proof (induction stmts arbitrary: w)
  case Nil
  show ?case by simp
next
  case (Cons s stmts)
  have "execute conn s w = (Inr (), w\<lparr>executed := executed w @ [s]\<rparr>)"
    using Cons.prems [of s] by (simp add: execute_def)
  moreover have "run_all (map (execute conn) stmts) (w\<lparr>executed := executed w @ [s]\<rparr>)
      = (Inr (), w\<lparr>executed := executed w @ [s]\<rparr>\<lparr>executed := executed (w\<lparr>executed := executed w @ [s]\<rparr>) @ stmts\<rparr>)"
    using Cons.prems by (intro Cons.IH) simp
  ultimately show ?case by simp
qed

lemma create_all_after_factory:
  assumes "md < allocated w" and "listeners (metas w md) = []"
    and "create_view gc nm sel md cod rep kws w = Inr (v, w')
         \<or> create_materialized_view gc nm sel md ia aa kw w = Inr (v, w')"
    and "\<And>s. accepts bind s"
  shows "fst (create_all bind md w') = Inr ()"
    and "executed (snd (create_all bind md w')) =
           executed w @ map CreateTable (tables (metas w md))
           @ [DDL_CreateView (CreateView v False)] @ map CreateIndex (indexes v)"
proof -
  from assms(3) obtain ia' aa' mat rep' kw' w1 where
    r: "create_view_from_selectable gc nm sel ia' None aa' mat rep' kw' w = Inr (v, w1)"
    and w': "w' = listens_for md ''before_drop'' (Hook_drop_view v)
                (listens_for md ''after_create'' (Hook_create_indexes v)
                   (listens_for md ''after_create'' (Hook_create_view v) w1))"
    by (rule factory_result)
  have m: "metadata v = allocated w" using cvfs_Inr(3) [OF r] by simp
  have w1: "w1 = add_table (allocated w) nm (snd (MetaData_new w))"
    using cvfs_Inr(12) [OF r] m by simp
  from assms(1) have neq: "allocated w \<noteq> md" by simp
  have ls: "listeners (metas w' md) =
      [(''after_create'', Hook_create_view v), (''after_create'', Hook_create_indexes v),
       (''before_drop'', Hook_drop_view v)]"
    using neq assms(2) by (simp add: w' w1 listens_for_def add_table_def MetaData_new_def)
  have ts: "tables (metas w' md) = tables (metas w md)"
    using neq by (simp add: w' w1 listens_for_def add_table_def MetaData_new_def)
  have ex: "executed w' = executed w"
    by (simp add: w' w1 listens_for_def add_table_def MetaData_new_def)
  have "run_all (map (execute bind) (map CreateTable (tables (metas w md)))) w'
      = (Inr (), w'\<lparr>executed := executed w' @ map CreateTable (tables (metas w md))\<rparr>)"
    by (rule run_all_executes) (auto simp add: assms(4))
  then have tabs: "run_all (map (\<lambda>t. execute bind (CreateTable t)) (tables (metas w md))) w'
      = (Inr (), w'\<lparr>executed := executed w' @ map CreateTable (tables (metas w md))\<rparr>)"
    by (simp add: comp_def)
  have "run_all (map (execute bind) (map CreateIndex (indexes v))) u
      = (Inr (), u\<lparr>executed := executed u @ map CreateIndex (indexes v)\<rparr>)" for u
    by (rule run_all_executes) (auto simp add: assms(4))
  then have idx: "run_all (map (\<lambda>i. execute bind (CreateIndex i)) (indexes v)) u
      = (Inr (), u\<lparr>executed := executed u @ map CreateIndex (indexes v)\<rparr>)" for u
    by (simp add: comp_def)
  have pass: "create_all bind md w' =
      run_all ([] @ map (\<lambda>t. execute bind (CreateTable t)) (tables (metas w md))
               @ [run_hook bind (Hook_create_view v), run_hook bind (Hook_create_indexes v)]) w'"
    by (simp add: create_all_def listeners_for_def ls ts)
  show "fst (create_all bind md w') = Inr ()"
    by (simp add: pass run_all_append tabs idx View_create_view_def Let_def
          run_ddl_visitor_def visit_view_def execute_def compile_create_no_error assms(4)
          del: compile_error.simps)
  show "executed (snd (create_all bind md w')) =
           executed w @ map CreateTable (tables (metas w md))
           @ [DDL_CreateView (CreateView v False)] @ map CreateIndex (indexes v)"
    by (simp add: pass run_all_append tabs idx View_create_view_def Let_def
          run_ddl_visitor_def visit_view_def execute_def compile_create_no_error assms(4) ex
          del: compile_error.simps)
qed

lemma drop_all_after_factory:
  assumes "md < allocated w" and "listeners (metas w md) = []"
    and "create_view gc nm sel md cod rep kws w = Inr (v, w')
         \<or> create_materialized_view gc nm sel md ia aa kw w = Inr (v, w')"
  shows "fst (drop_all bind md w') = Inl AttributeError"
    and "executed (snd (drop_all bind md w')) = executed w"
proof -
  from assms(3) obtain ia' aa' mat rep' kw' w1 where
    r: "create_view_from_selectable gc nm sel ia' None aa' mat rep' kw' w = Inr (v, w1)"
    and w': "w' = listens_for md ''before_drop'' (Hook_drop_view v)
                (listens_for md ''after_create'' (Hook_create_indexes v)
                   (listens_for md ''after_create'' (Hook_create_view v) w1))"
    by (rule factory_result)
  have m: "metadata v = allocated w" using cvfs_Inr(3) [OF r] by simp
  have c: "cascade v = None" using r by (rule cvfs_Inr)
  have w1: "w1 = add_table (allocated w) nm (snd (MetaData_new w))"
    using cvfs_Inr(12) [OF r] m by simp
  from assms(1) have neq: "allocated w \<noteq> md" by simp
  have ls: "listeners (metas w' md) =
      [(''after_create'', Hook_create_view v), (''after_create'', Hook_create_indexes v),
       (''before_drop'', Hook_drop_view v)]"
    using neq assms(2) by (simp add: w' w1 listens_for_def add_table_def MetaData_new_def)
  have ex: "executed w' = executed w"
    by (simp add: w' w1 listens_for_def add_table_def MetaData_new_def)
  have pass: "drop_all bind md w' =
      run_all (run_hook bind (Hook_drop_view v)
               # map (\<lambda>t. execute bind (DropTable t)) (rev (tables (metas w' md)))) w'"
    by (simp add: drop_all_def listeners_for_def ls)
  have hook: "View_drop_view bind v False w' = (Inl AttributeError, w'\<lparr>visit_name := ''table''\<rparr>)"
    by (simp add: View_drop_view_def Let_def run_ddl_visitor_def visit_view_def execute_def
          compile_drop_materialized_view_def c)
  show "fst (drop_all bind md w') = Inl AttributeError"
    by (simp add: pass hook)
  show "executed (snd (drop_all bind md w')) = executed w"
    by (simp add: pass hook ex)
qed

subsection \<open>Compiling CREATE VIEW\<close>

text \<open>
  Claim C1. For every view, compiling \<open>CreateView\<close> returns exactly the text
  \<open>CREATE\<close>, then \<open>OR REPLACE\<close> when the view's \<open>replace\<close> flag is set, then
  \<open>MATERIALIZED\<close> when its \<open>materialized\<close> flag is set, then \<open>VIEW\<close>, the name as the
  dialect quotes it, the WITH clause, \<open>AS\<close>, and the defining query as the dialect
  renders it with \<open>literal_binds\<close> on. The WITH clause lists the storage parameters
  \<open>k = v\<close>, comma separated, that the option bag files under \<open>postgresql\<close> and
  \<open>with\<close>; it is empty exactly when there is none there (no \<open>postgresql\<close> entry in the
  bag, options of other dialects only, no \<open>with\<close> option, or an empty mapping).
\<close>

theorem compile_create_view_text:
  "let ps = (case map_of (dialect_options v) ''postgresql'' of
               None \<Rightarrow> []
             | Some opts \<Rightarrow> (case map_of opts ''with'' of None \<Rightarrow> [] | Some m \<Rightarrow> m));
       with_clause =
         (if ps = [] then []
          else '' WITH ('' @ str_join '', '' (map (\<lambda>sp. fst sp @ '' = '' @ snd sp) ps) @ '')'')
   in compile_create_materialized_view cmplr (CreateView v ine) =
        Inr (''CREATE ''
             @ (if replace v then ''OR REPLACE '' else [])
             @ (if materialized v then ''MATERIALIZED '' else [])
             @ ''VIEW '' @ quote cmplr (name v)
             @ with_clause
             @ '' AS '' @ process cmplr (selectable v) True)
      \<and> (with_clause = []) = (ps = [])"
  by (simp add: compile_create_materialized_view_def Let_def dict_get_def
        collect_storage_parameters prepend_def split: option.splits)

theorem compile_create_view_text_witness:
  "compile_create_materialized_view ansi_compiler
     (CreateView (plain_view ''v1'' True False
        [(''postgresql'', [(''with'', [(''fillfactor'', ''70'')])])] None) False)
     = Inr (''CREATE MATERIALIZED VIEW '' @ [CHR 0x22] @ ''v1'' @ [CHR 0x22]
            @ '' WITH (fillfactor = 70) AS SELECT t.id FROM t'')
   \<and> compile_create_materialized_view ansi_compiler
     (CreateView (plain_view ''v1'' False False
        [(''mysql'', [(''with'', [(''fillfactor'', ''70'')])])] None) False)
     = Inr (''CREATE VIEW '' @ [CHR 0x22] @ ''v1'' @ [CHR 0x22] @ '' AS SELECT t.id FROM t'')"
  using compile_create_view_text [of "plain_view ''v1'' True False
        [(''postgresql'', [(''with'', [(''fillfactor'', ''70'')])])] None" ansi_compiler False]
    compile_create_view_text [of "plain_view ''v1'' False False
        [(''mysql'', [(''with'', [(''fillfactor'', ''70'')])])] None" ansi_compiler False]
  by (simp add: plain_view_def ansi_compiler_def)

subsection \<open>Compiling DROP VIEW\<close>

text \<open>
  Claim C2, as amended. For every view whose \<open>cascade\<close> attribute has been assigned a
  boolean, and for every value of the \<open>if_exists\<close> flag, compiling \<open>DropView\<close> returns
  exactly \<open>DROP\<close>, then \<open>MATERIALIZED\<close> when the view is materialized, then
  \<open>VIEW IF EXISTS\<close>, the quoted name, one space, and \<open>CASCADE\<close> when the attribute is
  true: the space after the name is there with or without \<open>CASCADE\<close>, and
  \<open>IF EXISTS\<close> whatever the flag says.
\<close>

theorem compile_drop_view_text:
  assumes "cascade v = Some c"
  shows "compile_drop_materialized_view cmplr (DropView v ife) =
           Inr (''DROP ''
                @ (if materialized v then ''MATERIALIZED '' else [])
                @ ''VIEW IF EXISTS '' @ quote cmplr (name v)
                @ '' '' @ (if c then ''CASCADE'' else []))"
  using assms by (simp add: compile_drop_materialized_view_def prepend_def)

theorem compile_drop_view_text_witness:
  "cascade (plain_view ''v1'' True False [] (Some True)) = Some True
   \<and> compile_drop_materialized_view ansi_compiler
       (DropView (plain_view ''v1'' True False [] (Some True)) False)
     = Inr (''DROP MATERIALIZED VIEW IF EXISTS '' @ [CHR 0x22] @ ''v1'' @ [CHR 0x22]
            @ '' CASCADE'')"
proof -
  have h: "cascade (plain_view ''v1'' True False [] (Some True)) = Some True"
    by (simp add: plain_view_def)
  show ?thesis
    using h compile_drop_view_text [OF h, of ansi_compiler False]
    by (simp add: plain_view_def ansi_compiler_def)
qed

text \<open>
  The claim as written gives, for a materialized view \<open>v1\<close> with \<open>cascade\<close> false, the
  text that ends with the quoted name. The compiler's text has one more character, the
  space of the template.
\<close>

theorem compile_drop_view_text_counterexample:
  "compile_drop_materialized_view ansi_compiler
       (DropView (plain_view ''v1'' True False [] (Some False)) False)
     = Inr (''DROP '' @ ''MATERIALIZED '' @ ''VIEW IF EXISTS '' @ quote ansi_compiler ''v1'' @ '' '')
   \<and> compile_drop_materialized_view ansi_compiler
       (DropView (plain_view ''v1'' True False [] (Some False)) False)
     \<noteq> Inr (''DROP '' @ ''MATERIALIZED '' @ ''VIEW IF EXISTS '' @ quote ansi_compiler ''v1'')"
  by (simp add: compile_drop_materialized_view_def prepend_def plain_view_def ansi_compiler_def)

subsection \<open>Constructing a view\<close>

text \<open>
  Claim C4. Whatever the name, the container, the selectable, the schema items and the
  options: \<open>View.__init__\<close> raises \<open>ValueError\<close> exactly when \<open>materialized\<close> and
  \<open>replace\<close> are both true, and returns a view for the three other combinations.
\<close>

theorem view_init_flags:
  "(View_init nm md sel mat rep args kw w = Inl ValueError) = (mat \<and> rep)
   \<and> (\<exists>v w'. View_init nm md sel mat rep args kw w = Inr (v, w')) = (\<not> (mat \<and> rep))"
  by (simp add: View_init_def Let_def)

subsection \<open>Deriving the columns and the primary key\<close>



text \<open>
  Claim C6, as amended. When \<open>create_view_from_selectable\<close> returns a view, the view
  has one column for each column of the selectable, in the selectable's order, with
  the same name and type; its key is what the alias map gives for the name, and the
  name itself when the map has no entry for it. Its primary-key flag is the source
  column's when some column of the selectable carries the flag. When none does, every
  column of the view carries it: the composite key the function appends flags the
  columns it names, and it names them all.
\<close>

theorem derived_columns:
  assumes "create_view_from_selectable gc nm sel ia ma aa mat rep kw w = Inr (v, w')"
  shows "map col_name (columns v) = map col_name (gc sel)
       \<and> map col_type (columns v) = map col_type (gc sel)
       \<and> map col_key (columns v) =
           map (\<lambda>c. case map_of (case aa of None \<Rightarrow> [] | Some a \<Rightarrow> a) (col_name c) of
                       None \<Rightarrow> col_name c | Some k \<Rightarrow> k) (gc sel)
       \<and> map primary_key (columns v) =
           (if list_ex primary_key (gc sel) then map primary_key (gc sel)
            else map (\<lambda>c. True) (gc sel))"
  using cvfs_Inr(4) [OF assms]
  by (simp add: derived_column_def dict_get_def comp_def)

theorem derived_columns_witness:
  "(\<exists>v w'. create_view_from_selectable users_columns ''v2'' ''SELECT * FROM users'' None None
             None False False [] init_world = Inr (v, w')
          \<and> map col_name (columns v) = [''id'', ''name'', ''email'']
          \<and> map col_key (columns v) = [''id'', ''name'', ''email'']
          \<and> map primary_key (columns v) = [True, False, False])
   \<and> (\<exists>v w'. create_view_from_selectable full_name_columns ''v3'' ''SELECT full_name FROM u''
             None None (Some [(''full_name'', ''fn'')]) False False [] init_world = Inr (v, w')
          \<and> map col_name (columns v) = [''full_name'']
          \<and> map col_key (columns v) = [''fn'']
          \<and> map primary_key (columns v) = [True])
   \<and> (\<exists>v w'. create_view_from_selectable ab_columns ''v1'' ''SELECT a, b FROM t''
             None None None False False [] init_world = Inr (v, w')
          \<and> map col_name (columns v) = [''a'', ''b'']
          \<and> map col_key (columns v) = [''a'', ''b'']
          \<and> map primary_key (columns v) = [True, True])"
proof -
  have "\<exists>v w'. create_view_from_selectable users_columns ''v2''
      ''SELECT * FROM users'' None None None False False [] init_world = Inr (v, w')"
    by (rule cvfs_total) (simp_all add: users_columns_def)
  then obtain v w' where a: "create_view_from_selectable users_columns ''v2''
      ''SELECT * FROM users'' None None None False False [] init_world = Inr (v, w')"
    by blast
  have "\<exists>v w'. create_view_from_selectable full_name_columns ''v3''
      ''SELECT full_name FROM u'' None None (Some [(''full_name'', ''fn'')]) False False []
      init_world = Inr (v, w')"
    by (rule cvfs_total) (simp_all add: full_name_columns_def)
  then obtain u w'' where b: "create_view_from_selectable full_name_columns ''v3''
      ''SELECT full_name FROM u'' None None (Some [(''full_name'', ''fn'')]) False False []
      init_world = Inr (u, w'')"
    by blast
  have "map col_name (columns v) = [''id'', ''name'', ''email'']
      \<and> map col_key (columns v) = [''id'', ''name'', ''email'']
      \<and> map primary_key (columns v) = [True, False, False]"
    using derived_columns [OF a] by (simp add: users_columns_def)
  moreover have "map col_name (columns u) = [''full_name'']
      \<and> map col_key (columns u) = [''fn'']
      \<and> map primary_key (columns u) = [True]"
    using derived_columns [OF b] by (simp add: full_name_columns_def)
  moreover have "map col_name (columns ab_v1) = [''a'', ''b'']
      \<and> map col_key (columns ab_v1) = [''a'', ''b'']
      \<and> map primary_key (columns ab_v1) = [True, True]"
    using derived_columns [OF ab_view] by (simp add: ab_columns_def)
  ultimately show ?thesis using a b ab_view by auto
qed

text \<open>
  The claim as written: the flags of the view's columns are those of the selectable's.
  For the selectable with the columns \<open>a\<close> and \<open>b\<close>, neither flagged, the function
  returns the view \<open>ab_v1\<close>, both of whose columns are flagged.
\<close>

theorem derived_columns_counterexample:
  "create_view_from_selectable ab_columns ''v1'' ''SELECT a, b FROM t'' None None None
       False False [] init_world
     = Inr (ab_v1, add_table 0 ''v1'' (snd (MetaData_new init_world)))
   \<and> map primary_key (columns ab_v1) = [True, True]
   \<and> map primary_key (ab_columns ''SELECT a, b FROM t'') = [False, False]
   \<and> map primary_key (columns ab_v1) \<noteq> map primary_key (ab_columns ''SELECT a, b FROM t'')"
  by (simp add: ab_view ab_v1_def ab_columns_def)

subsection \<open>Refreshing\<close>

text \<open>
  Claim C7. \<open>refresh_materialized_view\<close> adds two calls to those the session has
  received: one \<open>flush\<close>, then one \<open>execute\<close>. The statement executed compiles to
  \<open>REFRESH MATERIALIZED VIEW\<close>, then \<open>CONCURRENTLY\<close> when the flag is set, then the
  quoted name. The function returns nothing.
\<close>

theorem refresh_flush_then_execute:
  "\<exists>stmt. refresh_materialized_view s nm conc = ((), s @ [Flush, Execute stmt])
        \<and> compile_refresh_materialized_view cmplr stmt =
            Inr (''REFRESH MATERIALIZED VIEW ''
                 @ (if conc then ''CONCURRENTLY '' else [])
                 @ quote cmplr nm)"
  by (simp add: refresh_materialized_view_def session_flush_def session_execute_def
        compile_refresh_materialized_view_def prepend_def field_name_def after_field_def)

subsection \<open>The cascade attribute\<close>

text \<open>
  Claim C3. A view that \<open>create_view\<close> or \<open>create_materialized_view\<close> returns has no
  \<open>cascade\<close> attribute, whatever \<open>cascade_on_drop\<close> was: the argument is stored nowhere.
  So compiling \<open>DropView\<close> for it raises \<open>AttributeError\<close>, under every dialect and for
  both values of \<open>if_exists\<close>, and so does \<open>View.drop_view\<close>, against every connection
  and without executing a statement.
\<close>

theorem factory_view_has_no_cascade:
  assumes "create_view gc nm sel md cod rep kws w = Inr (v, w')
         \<or> create_materialized_view gc nm sel md ia aa kw w = Inr (v, w')"
  shows "cascade v = None
       \<and> compile_drop_materialized_view cmplr (DropView v ife) = Inl AttributeError
       \<and> fst (View_drop_view bind v cf w2) = Inl AttributeError
       \<and> executed (snd (View_drop_view bind v cf w2)) = executed w2"
proof -
  from assms obtain ia' aa' mat rep' kw' w1 where
    "create_view_from_selectable gc nm sel ia' None aa' mat rep' kw' w = Inr (v, w1)"
    by (rule factory_result)
  then have "cascade v = None" by (rule cvfs_Inr)
  then show ?thesis
    by (simp add: compile_drop_materialized_view_def View_drop_view_def Let_def
          run_ddl_visitor_def visit_view_def execute_def)
qed

theorem factory_view_has_no_cascade_witness:
  "(\<exists>w'. create_view users_columns ''v1'' ''SELECT * FROM users'' 0 True False no_kwargs
            one_table_world = Inr (users_v1, w'))
   \<and> cascade users_v1 = None
   \<and> compile_drop_materialized_view ansi_compiler (DropView users_v1 True)
       = Inl AttributeError
   \<and> fst (View_drop_view accept_all users_v1 False one_table_world) = Inl AttributeError
   \<and> executed (snd (View_drop_view accept_all users_v1 False one_table_world))
       = executed one_table_world"
  using factory_view_has_no_cascade [OF disjI1, OF users_view,
      of ansi_compiler True accept_all False one_table_world]
    users_view
  by simp

subsection \<open>The dispatch tag\<close>

text \<open>
  Claim C9. \<open>View.create_view\<close> and \<open>View.drop_view\<close> run the visitor in a world whose
  tag is \<open>view\<close>, so the visitor takes \<open>visit_view\<close> and executes the view statement;
  the tag is still \<open>view\<close> when the run ends. Whatever the run returns, a value or an
  exception, the tag is \<open>table\<close> when the call ends. In every world the module's
  operations reach from the class definition, the tag is \<open>table\<close>.
\<close>

theorem dispatch_tag_restored:
  "(let r = run_ddl_visitor bind ExtSchemaGenerator v cf (w\<lparr>visit_name := ''view''\<rparr>)
    in r = execute bind (DDL_CreateView (CreateView v False)) (w\<lparr>visit_name := ''view''\<rparr>)
       \<and> visit_name (snd r) = ''view''
       \<and> View_create_view bind v cf w = (fst r, (snd r)\<lparr>visit_name := ''table''\<rparr>))
   \<and> (let r = run_ddl_visitor bind ExtSchemaDropper v cf (w\<lparr>visit_name := ''view''\<rparr>)
      in r = execute bind (DDL_DropView (DropView v False)) (w\<lparr>visit_name := ''view''\<rparr>)
         \<and> visit_name (snd r) = ''view''
         \<and> View_drop_view bind v cf w = (fst r, (snd r)\<lparr>visit_name := ''table''\<rparr>))
   \<and> visit_name (snd (View_create_view bind v cf w)) = ''table''
   \<and> visit_name (snd (View_drop_view bind v cf w)) = ''table''
   \<and> (reachable w \<longrightarrow> visit_name w = ''table'')"
  by (simp add: Let_def View_create_view_def View_drop_view_def run_ddl_visitor_def
        visit_view_def execute_visit_name reachable_tag)

text \<open>
  A run that raises, twice: a database that refuses the CREATE VIEW, and a DROP VIEW
  that does not compile. And a world reached through such a call and a create pass.
\<close>

theorem dispatch_tag_restored_witness:
  "fst (View_create_view refuse_all users_v1 False one_table_world) = Inl DatabaseError
   \<and> visit_name (snd (View_create_view refuse_all users_v1 False one_table_world)) = ''table''
   \<and> fst (View_drop_view accept_all users_v1 False one_table_world) = Inl AttributeError
   \<and> visit_name (snd (View_drop_view accept_all users_v1 False one_table_world)) = ''table''
   \<and> reachable (snd (create_all accept_all 0
        (snd (View_create_view refuse_all users_v1 False one_table_world))))
   \<and> visit_name (snd (create_all accept_all 0
        (snd (View_create_view refuse_all users_v1 False one_table_world)))) = ''table''"
proof -
  let ?w = "snd (create_all accept_all 0
        (snd (View_create_view refuse_all users_v1 False one_table_world)))"
  have r: "reachable ?w"
    unfolding one_table_world_def
    by (rule reachable.create_pass, rule reachable.create, rule reachable.base_table,
        rule reachable.new_container, rule reachable.initial)
  have a: "fst (View_create_view refuse_all users_v1 False one_table_world) = Inl DatabaseError"
    by (simp add: View_create_view_def Let_def run_ddl_visitor_def visit_view_def execute_def
          refuse_all_def compile_create_no_error del: compile_error.simps)
  have b: "fst (View_drop_view accept_all users_v1 False one_table_world) = Inl AttributeError"
    by (simp add: View_drop_view_def Let_def run_ddl_visitor_def visit_view_def execute_def
          compile_drop_materialized_view_def users_v1_def)
  show ?thesis
    using r a b
      dispatch_tag_restored [of refuse_all users_v1 False one_table_world]
      dispatch_tag_restored [of accept_all users_v1 False one_table_world]
      dispatch_tag_restored [of accept_all users_v1 False ?w]
    by simp
qed

subsection \<open>Where the factories register the view\<close>

text \<open>
  Claim C10. A factory called with the caller's container \<open>md\<close> returns a view whose
  container is a new one, allocated by the call, with the view as its only table and no
  listener. The table collection of \<open>md\<close> is what it was: the view is not added to it.
  \<open>md\<close> gains the three listeners, in this order: view creation and index creation
  after the create pass, view drop before the drop pass. No other container, nor the
  dispatch tag, nor the executed statements change.
\<close>

theorem factory_registers_privately:
  assumes "md < allocated w"
    and "create_view gc nm sel md cod rep kws w = Inr (v, w')
         \<or> create_materialized_view gc nm sel md ia aa kw w = Inr (v, w')"
  shows "metadata v = allocated w \<and> metadata v \<noteq> md
       \<and> tables (metas w' md) = tables (metas w md)
       \<and> listeners (metas w' md) =
           listeners (metas w md)
           @ [(''after_create'', Hook_create_view v),
              (''after_create'', Hook_create_indexes v),
              (''before_drop'', Hook_drop_view v)]
       \<and> metas w' (metadata v) = \<lparr>tables = [name v], listeners = []\<rparr>
       \<and> (\<forall>a. a \<noteq> md \<and> a \<noteq> metadata v \<longrightarrow> metas w' a = metas w a)
       \<and> allocated w' = Suc (allocated w)
       \<and> visit_name w' = visit_name w
       \<and> executed w' = executed w"
proof -
  from assms(2) obtain ia' aa' mat rep' kw' w1 where
    r: "create_view_from_selectable gc nm sel ia' None aa' mat rep' kw' w = Inr (v, w1)"
    and w': "w' = listens_for md ''before_drop'' (Hook_drop_view v)
                (listens_for md ''after_create'' (Hook_create_indexes v)
                   (listens_for md ''after_create'' (Hook_create_view v) w1))"
    by (rule factory_result)
  have m: "metadata v = allocated w" using cvfs_Inr(3) [OF r] by simp
  have n: "name v = nm" using r by (rule cvfs_Inr)
  have w1: "w1 = add_table (allocated w) nm (snd (MetaData_new w))"
    using cvfs_Inr(12) [OF r] m by simp
  from assms(1) have neq: "allocated w \<noteq> md" by simp
  show ?thesis
    using neq
    by (simp add: m n w' w1 listens_for_def add_table_def MetaData_new_def)
qed

theorem factory_registers_privately_witness:
  "0 < allocated one_table_world
   \<and> (\<exists>w'. create_view users_columns ''v1'' ''SELECT * FROM users'' 0 True False no_kwargs
              one_table_world = Inr (users_v1, w')
          \<and> metadata users_v1 = 1
          \<and> tables (metas w' 0) = [''users'']
          \<and> listeners (metas w' 0) =
              [(''after_create'', Hook_create_view users_v1),
               (''after_create'', Hook_create_indexes users_v1),
               (''before_drop'', Hook_drop_view users_v1)]
          \<and> metas w' 1 = \<lparr>tables = [''v1''], listeners = []\<rparr>)"
proof -
  let ?W = "listens_for 0 ''before_drop'' (Hook_drop_view users_v1)
              (listens_for 0 ''after_create'' (Hook_create_indexes users_v1)
                 (listens_for 0 ''after_create'' (Hook_create_view users_v1)
                    (add_table 1 ''v1'' (snd (MetaData_new one_table_world)))))"
  have h: "0 < allocated one_table_world"
    by (simp add: one_table_world_def add_table_def MetaData_new_def init_world_def)
  have t: "tables (metas one_table_world 0) = [''users'']"
    and l: "listeners (metas one_table_world 0) = []"
    by (simp_all add: one_table_world_def add_table_def MetaData_new_def init_world_def)
  have n: "name users_v1 = ''v1''" and m: "metadata users_v1 = 1"
    by (simp_all add: users_v1_def)
  note f = factory_registers_privately [OF h disjI1, OF users_view]
  have f3: "tables (metas ?W 0) = [''users'']"
    using f [THEN conjunct2, THEN conjunct2, THEN conjunct1] t by simp
  have f4: "listeners (metas ?W 0) =
              [(''after_create'', Hook_create_view users_v1),
               (''after_create'', Hook_create_indexes users_v1),
               (''before_drop'', Hook_drop_view users_v1)]"
    using f [THEN conjunct2, THEN conjunct2, THEN conjunct2, THEN conjunct1] l by simp
  have f5: "metas ?W 1 = \<lparr>tables = [''v1''], listeners = []\<rparr>"
    using f [THEN conjunct2, THEN conjunct2, THEN conjunct2, THEN conjunct2, THEN conjunct1]
    by (simp only: m n)
  show ?thesis
    by (intro conjI exI [of _ ?W]) (rule h users_view m f3 f4 f5)+
qed

subsection \<open>The create pass and the drop pass\<close>

text \<open>
  Claim C8, evaluated on the container of one base table \<open>users\<close> and the view
  \<open>create_view\<close> builds over it, against a database that accepts every statement. The
  create pass does what the claim says: CREATE TABLE, then CREATE VIEW (the view has no
  index). The drop pass does not: the before-drop hook calls \<open>View.drop_view\<close>, the
  DROP compiler reads the \<open>cascade\<close> attribute the view does not have, and the pass ends
  with \<open>AttributeError\<close> before any statement is executed, the view's DROP VIEW
  included. The lemmas \<open>create_all_after_factory\<close> and \<open>drop_all_after_factory\<close> say
  the same of every container without earlier listeners and of both factories.
\<close>

theorem drop_all_raises_for_factory_view:
  "\<exists>v w1. create_view users_columns ''v1'' ''SELECT * FROM users'' 0 True False no_kwargs
             one_table_world = Inr (v, w1)
      \<and> fst (create_all accept_all 0 w1) = Inr ()
      \<and> executed (snd (create_all accept_all 0 w1))
          = [CreateTable ''users'', DDL_CreateView (CreateView v False)]
      \<and> fst (drop_all accept_all 0 w1) = Inl AttributeError
      \<and> executed (snd (drop_all accept_all 0 w1)) = []"
  unfolding users_view
  by (simp add: create_all_def drop_all_def listeners_for_def listens_for_def add_table_def
        MetaData_new_def one_table_world_def init_world_def execute_def accept_all_def
        View_create_view_def View_drop_view_def run_ddl_visitor_def visit_view_def Let_def
        compile_create_materialized_view_def compile_drop_materialized_view_def dict_get_def
        prepend_def users_v1_def)

end
